theory Spec2Isabelle
  imports Complex_Main "HOL-Library.Sublist" "HOL-Library.AList" "HOL-Library.Monad_Syntax"
    "HOL-Library.Multiset"
begin

section \<open>String operations of the source language\<close>

text \<open>
  \<open>str.replace(old, new)\<close>: every non-overlapping occurrence of \<open>old\<close>, found from
  the left, is replaced. With an empty \<open>old\<close> the replacement is inserted before every
  character and at the end.
\<close>

function py_replace :: "string \<Rightarrow> string \<Rightarrow> string \<Rightarrow> string" where
  "py_replace old new [] = (if old = [] then new else [])"
| "py_replace old new (c # cs) =
     (if old = [] then new @ c # py_replace old new cs
      else if prefix old (c # cs) then new @ py_replace old new (drop (length old) (c # cs))
      else c # py_replace old new cs)"
  by pat_completeness auto
termination
  by (relation "measure (\<lambda>(old, new, s). length s)") (auto simp: neq_Nil_conv)

text \<open>
  \<open>str.split(sep)\<close> with a one-character separator: the pieces between the
  separators, empty pieces included; never an empty list.
\<close>

fun py_split :: "char \<Rightarrow> string \<Rightarrow> string list" where
  "py_split sep [] = [[]]"
| "py_split sep (c # cs) =
     (if c = sep then [] # py_split sep cs
      else (case py_split sep cs of [] \<Rightarrow> [[c]] | p # ps \<Rightarrow> (c # p) # ps))"

definition endswith :: "string \<Rightarrow> string \<Rightarrow> bool" where
  "endswith s suf = suffix suf s"

text \<open>\<open>sub in s\<close> on strings: \<open>sub\<close> occurs in \<open>s\<close> as a contiguous piece.\<close>

definition contains :: "string \<Rightarrow> string \<Rightarrow> bool" where
  "contains s sub = sublist sub s"

text \<open>
  Truth value of an \<open>Optional[str]\<close>: \<open>None\<close> and the empty string are false.
\<close>

definition truthy :: "string option \<Rightarrow> bool" where
  "truthy s = (s \<noteq> None \<and> s \<noteq> Some [])"


section \<open>The record store as the options provider reads it\<close>

text \<open>
  The client is created with \<open>decode_responses=True\<close>, so keys, fields and values are
  strings. \<open>keys r pattern\<close> is the answer of the store to \<open>KEYS pattern\<close>, in the
  order the store enumerates it. \<open>hgetall r key\<close> is the field map stored under a key
  (empty when there is none), or \<open>None\<close> when the call raises.
\<close>

record redis =
  keys :: "string \<Rightarrow> string list"
  hgetall :: "string \<Rightarrow> (string \<times> string) list option"

text \<open>
  The values of \<open>float\<close>: the numbers, the two infinities, and nan. \<open>py_lt\<close> is
  \<open><\<close> and \<open>py_ge\<close> is \<open>>=\<close> on them; both are false whenever an argument is nan.
\<close>

datatype pyfloat = Num real | PosInf | NegInf | NaN

fun py_lt :: "pyfloat \<Rightarrow> pyfloat \<Rightarrow> bool" where
  "py_lt NaN b = False"
| "py_lt a NaN = False"
| "py_lt (Num x) (Num y) = (x < y)"
| "py_lt (Num x) PosInf = True"
| "py_lt (Num x) NegInf = False"
| "py_lt PosInf b = False"
| "py_lt NegInf NegInf = False"
| "py_lt NegInf b = True"

definition py_ge :: "pyfloat \<Rightarrow> pyfloat \<Rightarrow> bool" where
  "py_ge a b = (a \<noteq> NaN \<and> b \<noteq> NaN \<and> \<not> py_lt a b)"

text \<open>The dictionary appended to \<open>options_data\<close> for one instrument.\<close>

record option_view =
  view_symbol :: string
  view_expiry :: string
  view_strike :: string
  view_type :: string
  last_price :: pyfloat
  mark_price :: pyfloat
  volume_24h :: pyfloat
  open_interest :: pyfloat
  delta :: pyfloat
  gamma :: pyfloat
  theta :: pyfloat
  vega :: pyfloat
  iv :: pyfloat
  underlying :: pyfloat
  timestamp :: pyfloat

text \<open>
  \<open>float(data.get(field, 0) or 0)\<close>. The conversion \<open>float\<close> of a non-empty string
  is a parameter \<open>py_float\<close>: \<open>None\<close> where it raises \<open>ValueError\<close>. It does
  not raise on the strings \<open>nan\<close> and \<open>inf\<close>: nan and the infinities are among its
  values.
\<close>

definition num_field ::
  "(string \<Rightarrow> pyfloat option) \<Rightarrow> (string \<times> string) list \<Rightarrow> string \<Rightarrow> pyfloat option" where
  "num_field py_float data field =
     (case map_of data field of
        None \<Rightarrow> Some (Num 0)
      | Some s \<Rightarrow> if s = [] then Some (Num 0) else py_float s)"

text \<open>Lines 165 to 181: the view of one record; \<open>None\<close> when a conversion raises.\<close>

definition format_option ::
  "(string \<Rightarrow> pyfloat option) \<Rightarrow> string \<Rightarrow> string list \<Rightarrow> (string \<times> string) list
     \<Rightarrow> option_view option" where
  "format_option py_float symbol parts data = do {
     lp \<leftarrow> num_field py_float data ''last_price'';
     mp \<leftarrow> num_field py_float data ''mark_price'';
     vol \<leftarrow> num_field py_float data ''volume_24h'';
     oi \<leftarrow> num_field py_float data ''open_interest'';
     de \<leftarrow> num_field py_float data ''delta'';
     ga \<leftarrow> num_field py_float data ''gamma'';
     th \<leftarrow> num_field py_float data ''theta'';
     ve \<leftarrow> num_field py_float data ''vega'';
     miv \<leftarrow> num_field py_float data ''mark_iv'';
     up \<leftarrow> num_field py_float data ''underlying_price'';
     ts \<leftarrow> num_field py_float data ''timestamp'';
     Some \<lparr> view_symbol = symbol,
            view_expiry = (if length parts > 1 then parts ! 1 else ''N/A''),
            view_strike = (if length parts > 2 then parts ! 2 else ''N/A''),
            view_type = (if contains symbol ''-C'' then ''Call'' else ''Put''),
            last_price = lp, mark_price = mp, volume_24h = vol, open_interest = oi,
            delta = de, gamma = ga, theta = th, vega = ve, iv = miv,
            underlying = up, timestamp = ts \<rparr>
   }"

text \<open>
  The body of the loop (lines 142 to 183) for one key: \<open>None\<close> for every
  \<open>continue\<close>, the one of the \<open>except\<close> clause included.
\<close>

definition scan_key ::
  "(string \<Rightarrow> pyfloat option) \<Rightarrow> redis \<Rightarrow> string option \<Rightarrow> string option \<Rightarrow> string
     \<Rightarrow> option_view option" where
  "scan_key py_float r expiry option_type key =
     (case hgetall r key of
        None \<Rightarrow> None
      | Some data \<Rightarrow>
          if data = [] then None
          else
            let symbol = py_replace ''option:'' '''' key;
                parts = py_split CHR ''-'' symbol
            in
              if truthy expiry \<and> expiry \<noteq> Some ''all'' \<and>
                 length parts > 1 \<and> Some (parts ! 1) \<noteq> expiry then None
              else if truthy option_type \<and> option_type \<noteq> Some ''all'' \<and>
                 option_type = Some ''call'' \<and>
                 \<not> endswith symbol ''-C'' \<and> \<not> endswith symbol ''-C-USDT'' then None
              else if truthy option_type \<and> option_type \<noteq> Some ''all'' \<and>
                 option_type = Some ''put'' \<and>
                 \<not> endswith symbol ''-P'' \<and> \<not> endswith symbol ''-P-USDT'' then None
              else format_option py_float symbol parts data)"

text \<open>The \<open>for\<close> loop over the keys, appending to \<open>options_data\<close>.\<close>

fun scan_loop ::
  "(string \<Rightarrow> option_view option) \<Rightarrow> string list \<Rightarrow> option_view list \<Rightarrow> option_view list" where
  "scan_loop body [] options_data = options_data"
| "scan_loop body (key # rest) options_data =
     (case body key of
        None \<Rightarrow> scan_loop body rest options_data
      | Some v \<Rightarrow> scan_loop body rest (options_data @ [v]))"

text \<open>
  \<open>list.sort(key=..., reverse=True)\<close>: the list is reversed, sorted by a stable
  ascending sort that asks only \<open><\<close> of the keys, and reversed again. The stable sort
  is written as an insertion sort. Where \<open><\<close> orders the keys, that is with no nan among
  them, every stable sort returns the same list. With a nan among the keys the result
  depends on the algorithm, and the interpreter's may leave the same records in another
  arrangement than this one does. The theorems below that admit a nan say which records
  are returned, or compare two runs of the sort; they say nothing of the arrangement.
\<close>

fun insort_lt :: "('a \<Rightarrow> pyfloat) \<Rightarrow> 'a \<Rightarrow> 'a list \<Rightarrow> 'a list" where
  "insort_lt key x [] = [x]"
| "insort_lt key x (y # ys) =
     (if py_lt (key y) (key x) then y # insort_lt key x ys else x # y # ys)"

definition sort_lt :: "('a \<Rightarrow> pyfloat) \<Rightarrow> 'a list \<Rightarrow> 'a list" where
  "sort_lt key xs = foldr (insort_lt key) xs []"

definition sort_reverse :: "('a \<Rightarrow> pyfloat) \<Rightarrow> 'a list \<Rightarrow> 'a list" where
  "sort_reverse key xs = rev (sort_lt key (rev xs))"

definition scanned_keys :: "redis \<Rightarrow> string \<Rightarrow> string list" where
  "scanned_keys r asset = take 500 (keys r (''option:'' @ asset @ ''-*''))"

definition collect_options ::
  "(string \<Rightarrow> pyfloat option) \<Rightarrow> redis \<Rightarrow> string \<Rightarrow> string option \<Rightarrow> string option
     \<Rightarrow> option_view list" where
  "collect_options py_float r asset expiry option_type =
     scan_loop (scan_key py_float r expiry option_type) (scanned_keys r asset) []"

definition get_options_data ::
  "(string \<Rightarrow> pyfloat option) \<Rightarrow> redis \<Rightarrow> string \<Rightarrow> string option \<Rightarrow> string option
     \<Rightarrow> option_view list" where
  "get_options_data py_float r asset expiry option_type =
     sort_reverse volume_24h (collect_options py_float r asset expiry option_type)"


section \<open>The asset registry\<close>

text \<open>
  An entry of the registry: the dictionary with the keys \<open>name\<close>, \<open>enabled\<close>,
  \<open>order\<close> and, for an added asset, \<open>added_date\<close>. The registry is a dictionary from
  symbols to entries, kept as an association list in insertion order.
\<close>

record asset =
  asset_name :: string
  asset_enabled :: bool
  asset_order :: int
  added_date :: "string option"

type_synonym assets = "(string \<times> asset) list"

definition DEFAULT_ASSETS :: assets where
  "DEFAULT_ASSETS =
     [(''BTC'', \<lparr>asset_name = ''Bitcoin'', asset_enabled = True, asset_order = 1, added_date = None\<rparr>),
      (''ETH'', \<lparr>asset_name = ''Ethereum'', asset_enabled = True, asset_order = 2, added_date = None\<rparr>),
      (''SOL'', \<lparr>asset_name = ''Solana'', asset_enabled = True, asset_order = 3, added_date = None\<rparr>)]"

text \<open>
  The state the manager works on. \<open>stored\<close> is the document under \<open>config:assets\<close>,
  decoded: \<open>None\<close> when the key is absent (or holds the empty string, which the test
  \<open>if assets_json\<close> treats alike). \<open>default_assets\<close> is the current value of the class
  attribute \<open>DEFAULT_ASSETS\<close>: \<open>get_assets\<close> returns that very dictionary when it
  bootstraps, so what a caller then writes into the result is written into the attribute.
  \<open>set_calls\<close> counts the \<open>SET\<close> commands sent to the store, so that a state left as it
  was is a state nothing was written to.
\<close>

record manager =
  stored :: "assets option"
  default_assets :: assets
  set_calls :: nat

text \<open>What the catalogue request of \<open>test_asset\<close> can come back with.\<close>

datatype probe_reply =
    Probe_Timeout
  | Probe_Network_Error
  | Probe_Invalid_Body
  | Probe_Json (ret_code: "int option") (result_list: "nat option")

text \<open>
  The world outside the manager: the catalogue's reply for a base coin, the clock, and
  whether the store accepts a \<open>SET\<close> (\<open>save_assets\<close> catches the failure). Reads of
  the store are taken to succeed.
\<close>

record env =
  probe :: "string \<Rightarrow> probe_reply"
  now :: string
  set_ok :: bool

datatype add_error = AlreadyExists string | NoInstrumentsAvailable string

text \<open>
  \<open>str.upper\<close> is a parameter \<open>upper\<close> of the operations that call it.
\<close>

text \<open>
  Lines 53 to 61: one \<open>SET\<close> is sent; \<open>False\<close>, and the document as it was, when it
  raises.
\<close>

definition save_assets :: "env \<Rightarrow> assets \<Rightarrow> manager \<Rightarrow> bool \<times> manager" where
  "save_assets e a s =
     (if set_ok e then (True, s\<lparr>stored := Some a, set_calls := set_calls s + 1\<rparr>)
      else (False, s\<lparr>set_calls := set_calls s + 1\<rparr>))"

text \<open>
  The result of \<open>get_assets\<close> is the dictionary and whether it is the class attribute
  itself (the bootstrap branch) rather than a fresh one decoded from the store.
\<close>

definition get_assets :: "env \<Rightarrow> manager \<Rightarrow> (assets \<times> bool) \<times> manager" where
  "get_assets e s =
     (case stored s of
        Some a \<Rightarrow> ((a, False), s)
      | None \<Rightarrow> ((default_assets s, True), snd (save_assets e (default_assets s) s)))"

text \<open>
  Lines 87 to 105: true only for a reply with \<open>retCode\<close> zero and a non-empty
  \<open>result.list\<close> (an absent list counts as empty); every exception gives false.
\<close>

definition test_asset :: "(string \<Rightarrow> string) \<Rightarrow> env \<Rightarrow> string \<Rightarrow> bool" where
  "test_asset upper e symbol =
     (case probe e (upper symbol) of
        Probe_Json rc items \<Rightarrow>
          if rc = Some 0 then 0 < (case items of None \<Rightarrow> 0 | Some n \<Rightarrow> n) else False
      | _ \<Rightarrow> False)"

text \<open>
  A write into the dictionary \<open>get_assets\<close> returned reaches the class attribute when
  the two are one object.
\<close>

definition write_through :: "bool \<Rightarrow> assets \<Rightarrow> manager \<Rightarrow> manager" where
  "write_through shared a s = (if shared then s\<lparr>default_assets := a\<rparr> else s)"

text \<open>
  Lines 63 to 125. Each operation reads the registry with \<open>get_assets\<close>, changes the
  dictionary it got in place and saves it; the value \<open>save_assets\<close> returns is ignored,
  as in the source.
\<close>

definition add_asset ::
  "(string \<Rightarrow> string) \<Rightarrow> env \<Rightarrow> manager \<Rightarrow> string \<Rightarrow> string \<Rightarrow> (add_error + unit) \<times> manager" where
  "add_asset upper e s symbol name =
     (let ((assets, shared), s1) = get_assets e s in
      if map_of assets (upper symbol) \<noteq> None then (Inl (AlreadyExists symbol), s1)
      else if \<not> test_asset upper e symbol then (Inl (NoInstrumentsAvailable symbol), s1)
      else
        let assets' = AList.update (upper symbol)
              \<lparr>asset_name = name, asset_enabled = True,
               asset_order = int (length assets) + 1, added_date = Some (now e)\<rparr> assets
        in (Inr (), snd (save_assets e assets' (write_through shared assets' s1))))"


definition remove_asset :: "env \<Rightarrow> manager \<Rightarrow> string \<Rightarrow> bool \<times> manager" where
  "remove_asset e s symbol =
     (let ((assets, shared), s1) = get_assets e s in
      if map_of assets symbol \<noteq> None \<and> map_of (default_assets s1) symbol = None then
        let assets' = AList.delete symbol assets
        in (True, snd (save_assets e assets' (write_through shared assets' s1)))
      else (False, s1))"

text \<open>
  The states the three operations reach from the bootstrapped one, the state the first
  \<open>get_assets\<close> of a process leaves on an empty store that accepts the write: the document
  holds the default set, one \<open>SET\<close> was sent. The outside world may differ from call to
  call.
\<close>

definition bootstrapped :: manager where
  "bootstrapped = \<lparr>stored = Some DEFAULT_ASSETS, default_assets = DEFAULT_ASSETS, set_calls = 1\<rparr>"



section \<open>Auxiliary notions and concrete data\<close>

text \<open>Keeping an optional value only when it satisfies a test.\<close>

definition keep :: "('a \<Rightarrow> bool) \<Rightarrow> 'a option \<Rightarrow> 'a option" where
  "keep P x = (case x of None \<Rightarrow> None | Some v \<Rightarrow> if P v then Some v else None)"

text \<open>
  The classification in the words of the specification: Call for an identifier that ends
  with the call marker, with or without the settlement suffix; Put for every other one.
\<close>

definition spec_kind :: "string \<Rightarrow> string" where
  "spec_kind raw = (if endswith raw ''-C'' \<or> endswith raw ''-C-USDT'' then ''Call'' else ''Put'')"

text \<open>The stored fields read as numbers, and the entry of the view each one fills.\<close>

definition numeric_fields :: "string list" where
  "numeric_fields = [''last_price'', ''mark_price'', ''volume_24h'', ''open_interest'', ''delta'',
     ''gamma'', ''theta'', ''vega'', ''mark_iv'', ''underlying_price'', ''timestamp'']"

definition view_num :: "string \<Rightarrow> option_view \<Rightarrow> pyfloat" where
  "view_num field v =
     (if field = ''last_price'' then last_price v
      else if field = ''mark_price'' then mark_price v
      else if field = ''volume_24h'' then volume_24h v
      else if field = ''open_interest'' then open_interest v
      else if field = ''delta'' then delta v
      else if field = ''gamma'' then gamma v
      else if field = ''theta'' then theta v
      else if field = ''vega'' then vega v
      else if field = ''mark_iv'' then iv v
      else if field = ''underlying_price'' then underlying v
      else timestamp v)"

text \<open>
  A conversion for the concrete evaluations below: a non-empty string of ASCII digits is
  the number it writes, \<open>nan\<close> is nan and \<open>inf\<close> is the positive infinity, as for
  \<open>float\<close>; everything else is rejected. (\<open>float\<close> accepts more: signs, fractions,
  exponents. The general theorems hold for every conversion; the concrete ones only
  convert digit strings, \<open>nan\<close> and the string \<open>abc\<close>.)
\<close>

fun digits_value :: "nat \<Rightarrow> string \<Rightarrow> nat option" where
  "digits_value acc [] = Some acc"
| "digits_value acc (c # cs) =
     (let n = (of_char c :: nat) in
      if 48 \<le> n \<and> n \<le> 57 then digits_value (10 * acc + (n - 48)) cs else None)"

definition decimal_float :: "string \<Rightarrow> pyfloat option" where
  "decimal_float s =
     (if s = [] then None
      else if s = ''nan'' then Some NaN
      else if s = ''inf'' then Some PosInf
      else map_option (\<lambda>n. Num (real n)) (digits_value 0 s))"

text \<open>
  A store holding the given hashes, all of them instruments of BTC, enumerated in the
  order given.
\<close>

definition btc_store :: "(string \<times> (string \<times> string) list) list \<Rightarrow> redis" where
  "btc_store recs =
     \<lparr> keys = (\<lambda>pattern. if pattern = ''option:BTC-*'' then map fst recs else []),
       hgetall = (\<lambda>key. case map_of recs key of None \<Rightarrow> Some [] | Some data \<Rightarrow> Some data) \<rparr>"

text \<open>A store with 600 instruments of BTC, more than the cap of the scan.\<close>

definition big_store :: redis where
  "big_store =
     \<lparr> keys = (\<lambda>pattern. if pattern = ''option:BTC-*''
                then map (\<lambda>n. ''option:BTC-'' @ replicate n CHR ''x'') [0..<600] else []),
       hgetall = (\<lambda>key. Some [(''volume_24h'', ''1'')]) \<rparr>"

text \<open>The store of the worked example: five instruments of BTC, in scan order.\<close>

definition sample_store :: redis where
  "sample_store = btc_store
     [(''option:BTC-30JUN24-50000-C'', [(''volume_24h'', ''10'')]),
      (''option:BTC-30JUN24-50000-P'', [(''volume_24h'', ''99'')]),
      (''option:BTC-30JUN24-60000-C'', [(''volume_24h'', ''50'')]),
      (''option:BTC-27SEP24-60000-C'', [(''volume_24h'', ''70'')]),
      (''option:BTC-30JUN24-70000-C-USDT'', [(''volume_24h'', ''30'')])]"

text \<open>
  \<open>str.upper\<close> as it acts on ASCII strings, for the concrete evaluations: the letters a
  to z go to A to Z and every other character stays.
\<close>

definition ascii_upper_char :: "char \<Rightarrow> char" where
  "ascii_upper_char c =
     (let n = (of_char c :: nat) in if 97 \<le> n \<and> n \<le> 122 then char_of (n - 32) else c)"

definition ascii_upper :: "string \<Rightarrow> string" where
  "ascii_upper s = map ascii_upper_char s"

text \<open>
  A process that has just started on a store with no registry document, and an outside
  world that answers every probe alike.
\<close>

definition fresh :: manager where
  "fresh = \<lparr>stored = None, default_assets = DEFAULT_ASSETS, set_calls = 0\<rparr>"

definition world :: "probe_reply \<Rightarrow> bool \<Rightarrow> env" where
  "world reply ok = \<lparr>probe = (\<lambda>coin. reply), now = ''2024-06-30T12:00:00'', set_ok = ok\<rparr>"



section \<open>Lemmas on the building blocks\<close>

declare py_replace.simps [simp del]

lemmas eval_defs = get_options_data_def collect_options_def scanned_keys_def btc_store_def
  scan_key_def truthy_def endswith_def suffix_to_prefix format_option_def num_field_def
  decimal_float_def sort_reverse_def sort_lt_def contains_def py_replace.simps spec_kind_def Let_def
  sublist_code sample_store_def

lemma scan_loop_map_filter: "scan_loop body ks acc = acc @ List.map_filter body ks"
  by (induction ks arbitrary: acc) (auto simp: List.map_filter_simps split: option.splits)

lemma collect_options_map_filter:
  "collect_options pf r asset e t = List.map_filter (scan_key pf r e t) (scanned_keys r asset)"
  by (simp add: collect_options_def scan_loop_map_filter)

lemma filter_map_filter:
  "filter P (List.map_filter f ks) = List.map_filter (\<lambda>k. keep P (f k)) ks"
  by (induction ks) (auto simp: List.map_filter_simps keep_def split: option.splits)

lemma map_filter_cong_set:
  "(\<And>k. k \<in> set ks \<Longrightarrow> f k = g k) \<Longrightarrow> List.map_filter f ks = List.map_filter g ks"
  by (induction ks) (auto simp: List.map_filter_simps split: option.splits)

lemma set_map_filter: "set (List.map_filter f ks) = {v. \<exists>k\<in>set ks. f k = Some v}"
  by (induction ks) (auto simp: List.map_filter_simps split: option.splits)

lemma length_map_filter_le: "length (List.map_filter f ks) \<le> length ks"
  by (induction ks) (auto simp: List.map_filter_simps split: option.splits)

lemma py_lt_irrefl: "\<not> py_lt a a"
  by (cases a) auto

lemma py_lt_asym: "py_lt a b \<Longrightarrow> \<not> py_lt b a"
  by (cases a; cases b) auto

lemma py_lt_cotrans: "b \<noteq> NaN \<Longrightarrow> py_lt a c \<Longrightarrow> py_lt a b \<or> py_lt b c"
  by (cases a; cases b; cases c) auto

lemma mset_insort_lt: "mset (insort_lt key x ys) = add_mset x (mset ys)"
  by (induction ys) auto

lemma mset_sort_lt: "mset (sort_lt key xs) = mset xs"
  by (induction xs) (auto simp: sort_lt_def mset_insort_lt)

lemma mset_sort_reverse: "mset (sort_reverse key xs) = mset xs"
  by (simp add: sort_reverse_def mset_sort_lt)

lemma set_sort_reverse: "set (sort_reverse key xs) = set xs"
  using mset_sort_reverse [of key xs] by (metis set_mset_mset)

lemma length_sort_reverse: "length (sort_reverse key xs) = length xs"
  using mset_sort_reverse [of key xs] by (metis size_mset)

lemma filter_insort_lt:
  "filter (\<lambda>y. key y = k) (insort_lt key x ys) =
     (if key x = k then x # filter (\<lambda>y. key y = k) ys else filter (\<lambda>y. key y = k) ys)"
  by (induction ys) (auto simp: py_lt_irrefl)

lemma sort_lt_stable: "filter (\<lambda>y. key y = k) (sort_lt key xs) = filter (\<lambda>y. key y = k) xs"
  by (induction xs) (auto simp: sort_lt_def filter_insort_lt)

lemma sort_reverse_stable:
  "filter (\<lambda>y. key y = k) (sort_reverse key xs) = filter (\<lambda>y. key y = k) xs"
  by (simp add: sort_reverse_def rev_filter [symmetric] sort_lt_stable)

lemma set_insort_lt: "set (insort_lt key x ys) = insert x (set ys)"
  using mset_insort_lt [of key x ys] by (metis set_mset_add_mset_insert set_mset_mset)

lemma sorted_insort_lt:
  assumes "sorted_wrt (\<lambda>a b. \<not> py_lt (key b) (key a)) ys"
    and "\<forall>y\<in>set ys. key y \<noteq> NaN"
  shows "sorted_wrt (\<lambda>a b. \<not> py_lt (key b) (key a)) (insort_lt key x ys)"
  using assms
proof (induction ys)
  case Nil
  then show ?case by simp
next
  case (Cons y ys)
  show ?case
  proof (cases "py_lt (key y) (key x)")
    case True
    then have "\<not> py_lt (key x) (key y)"
      by (rule py_lt_asym)
    with True Cons show ?thesis
      by (auto simp: set_insort_lt)
  next
    case False
    have "\<not> py_lt (key z) (key x)" if "z \<in> set ys" for z
    proof
      assume "py_lt (key z) (key x)"
      moreover have "key y \<noteq> NaN" using Cons.prems(2) by simp
      ultimately have "py_lt (key z) (key y) \<or> py_lt (key y) (key x)"
        by (rule py_lt_cotrans [rotated])
      with False that Cons.prems(1) show False by auto
    qed
    with False Cons.prems(1) show ?thesis by auto
  qed
qed

lemma sorted_sort_lt:
  "\<forall>x\<in>set xs. key x \<noteq> NaN \<Longrightarrow> sorted_wrt (\<lambda>a b. \<not> py_lt (key b) (key a)) (sort_lt key xs)"
proof (induction xs)
  case Nil
  then show ?case by (simp add: sort_lt_def)
next
  case (Cons x xs)
  have s: "set (sort_lt key xs) = set xs"
    using mset_sort_lt [of key xs] by (metis set_mset_mset)
  have "sorted_wrt (\<lambda>a b. \<not> py_lt (key b) (key a)) (insort_lt key x (sort_lt key xs))"
    using Cons by (intro sorted_insort_lt) (auto simp: s)
  then show ?case by (simp add: sort_lt_def)
qed

lemma sorted_sort_reverse:
  assumes "\<forall>x\<in>set xs. key x \<noteq> NaN"
  shows "sorted_wrt py_ge (map key (sort_reverse key xs))"
proof -
  let ?zs = "sort_lt key (rev xs)"
  have s: "set ?zs = set xs"
    using mset_sort_lt [of key "rev xs"] by (metis set_mset_mset set_rev)
  have z: "sorted_wrt (\<lambda>a b. \<not> py_lt (key b) (key a)) ?zs"
    using assms by (intro sorted_sort_lt) simp
  have "sorted_wrt (\<lambda>a b. py_ge (key b) (key a)) ?zs"
  proof (rule sorted_wrt_mono_rel [OF _ z])
    fix a b
    assume "a \<in> set ?zs" "b \<in> set ?zs" "\<not> py_lt (key b) (key a)"
    with assms show "py_ge (key b) (key a)"
      by (simp add: py_ge_def s)
  qed
  then show ?thesis
    by (simp add: sort_reverse_def sorted_wrt_map sorted_wrt_rev)
qed

lemma format_option_Some:
  assumes "format_option pf symbol parts data = Some v"
  shows "view_symbol v = symbol"
    and "view_expiry v = (if length parts > 1 then parts ! 1 else ''N/A'')"
    and "view_strike v = (if length parts > 2 then parts ! 2 else ''N/A'')"
    and "view_type v = (if contains symbol ''-C'' then ''Call'' else ''Put'')"
  using assms by (auto simp: format_option_def bind_eq_Some_conv)

lemma length_py_split: "length (py_split c s) = Suc (count_list s c)"
  by (induction s) (auto split: list.splits)

lemma py_split_more: "c \<in> set s \<Longrightarrow> 1 < length (py_split c s)"
  using count_list_0_iff [of s c] by (simp add: length_py_split)

lemma py_replace_keeps:
  "c \<notin> set old \<Longrightarrow> c \<in> set (py_replace old [] s) \<longleftrightarrow> c \<in> set s"
proof (induction old "[] :: string" s rule: py_replace.induct)
  case (1 old)
  then show ?case by (simp add: py_replace.simps)
next
  case (2 old x xs)
  show ?case
  proof (cases "old = []")
    case True
    with 2 show ?thesis by (simp add: py_replace.simps)
  next
    case False
    show ?thesis
    proof (cases "prefix old (x # xs)")
      case True
      then obtain rest where r: "x # xs = old @ rest"
        by (auto simp: prefix_def)
      then have d: "drop (length old) (x # xs) = rest"
        by (metis append_eq_conv_conj)
      from 2 False True have "c \<in> set (py_replace old [] (drop (length old) (x # xs))) \<longleftrightarrow> c \<in> set (drop (length old) (x # xs))"
        by blast
      moreover have "c \<in> set (x # xs) \<longleftrightarrow> c \<in> set rest"
        using r 2(4) by (metis Un_iff set_append)
      ultimately show ?thesis
        using False True d by (simp add: py_replace.simps)
    next
      case no: False
      with 2 False show ?thesis by (simp add: py_replace.simps)
    qed
  qed
qed

lemma symbol_has_parts:
  "CHR ''-'' \<in> set k \<Longrightarrow> 1 < length (py_split CHR ''-'' (py_replace ''option:'' '''' k))"
  by (rule py_split_more) (simp add: py_replace_keeps)

lemma scan_key_expiry:
  assumes "E \<noteq> []" "E \<noteq> ''all''" "CHR ''-'' \<in> set k"
  shows "scan_key pf r (Some E) t k = keep (\<lambda>v. view_expiry v = E) (scan_key pf r None t k)"
proof -
  have p: "1 < length (py_split CHR ''-'' (py_replace ''option:'' '''' k))"
    using assms(3) by (rule symbol_has_parts)
  show ?thesis
    using assms(1,2) p
    by (auto simp: scan_key_def keep_def truthy_def Let_def format_option_Some(2)
        split: option.splits)
qed

lemma scan_key_call:
  "scan_key pf r e (Some ''call'') k =
     keep (\<lambda>v. endswith (view_symbol v) ''-C'' \<or> endswith (view_symbol v) ''-C-USDT'')
       (scan_key pf r e None k)"
  by (auto simp: scan_key_def keep_def truthy_def Let_def format_option_Some(1)
      split: option.splits)

lemma scan_key_put:
  "scan_key pf r e (Some ''put'') k =
     keep (\<lambda>v. endswith (view_symbol v) ''-P'' \<or> endswith (view_symbol v) ''-P-USDT'')
       (scan_key pf r e None k)"
  by (auto simp: scan_key_def keep_def truthy_def Let_def format_option_Some(1)
      split: option.splits)

lemma scan_key_all_expiry: "scan_key pf r (Some ''all'') t = scan_key pf r None t"
  by (rule ext) (auto simp: scan_key_def truthy_def Let_def split: option.splits)

lemma scan_key_all_type: "scan_key pf r e (Some ''all'') = scan_key pf r e None"
  by (rule ext) (auto simp: scan_key_def truthy_def Let_def split: option.splits)


lemma get_options_data_map_filter:
  "get_options_data pf r asset e t =
     sort_reverse volume_24h (List.map_filter (scan_key pf r e t) (scanned_keys r asset))"
  by (simp add: get_options_data_def collect_options_map_filter)

lemma get_options_data_keep:
  assumes "\<And>k. k \<in> set (scanned_keys r asset) \<Longrightarrow> scan_key pf r e t k = keep P (scan_key pf r e' t' k)"
  shows "mset (get_options_data pf r asset e t) =
           filter_mset P (mset (get_options_data pf r asset e' t'))"
proof -
  have "List.map_filter (scan_key pf r e t) (scanned_keys r asset) =
        List.map_filter (\<lambda>k. keep P (scan_key pf r e' t' k)) (scanned_keys r asset)"
    using assms by (rule map_filter_cong_set)
  also have "\<dots> = filter P (List.map_filter (scan_key pf r e' t') (scanned_keys r asset))"
    by (simp add: filter_map_filter)
  finally show ?thesis
    by (simp add: get_options_data_map_filter mset_sort_reverse)
qed

lemma scan_key_empty_expiry: "scan_key pf r (Some []) t = scan_key pf r None t"
  by (rule ext) (auto simp: scan_key_def truthy_def Let_def split: option.splits)

lemma scan_key_empty_type: "scan_key pf r e (Some []) = scan_key pf r e None"
  by (rule ext) (auto simp: scan_key_def truthy_def Let_def split: option.splits)


lemma format_option_fields:
  assumes "format_option pf symbol parts data = Some v"
  shows "num_field pf data ''last_price'' = Some (last_price v)
       \<and> num_field pf data ''mark_price'' = Some (mark_price v)
       \<and> num_field pf data ''volume_24h'' = Some (volume_24h v)
       \<and> num_field pf data ''open_interest'' = Some (open_interest v)
       \<and> num_field pf data ''delta'' = Some (delta v)
       \<and> num_field pf data ''gamma'' = Some (gamma v)
       \<and> num_field pf data ''theta'' = Some (theta v)
       \<and> num_field pf data ''vega'' = Some (vega v)
       \<and> num_field pf data ''mark_iv'' = Some (iv v)
       \<and> num_field pf data ''underlying_price'' = Some (underlying v)
       \<and> num_field pf data ''timestamp'' = Some (timestamp v)"
  using assms unfolding format_option_def
  by (clarsimp simp: bind_eq_Some_conv)

lemma format_option_num:
  assumes "format_option pf symbol parts data = Some v" and "f \<in> set numeric_fields"
  shows "num_field pf data f = Some (view_num f v)"
proof -
  note fs = format_option_fields [OF assms(1)]
  from assms(2) consider "f = ''last_price''" | "f = ''mark_price''" | "f = ''volume_24h''"
    | "f = ''open_interest''" | "f = ''delta''" | "f = ''gamma''" | "f = ''theta''"
    | "f = ''vega''" | "f = ''mark_iv''" | "f = ''underlying_price''" | "f = ''timestamp''"
    unfolding numeric_fields_def by fastforce
  then show ?thesis
  proof cases
    case 1 with fs show ?thesis by (simp add: view_num_def)
  next
    case 2 with fs show ?thesis by (simp add: view_num_def)
  next
    case 3 with fs show ?thesis by (simp add: view_num_def)
  next
    case 4 with fs show ?thesis by (simp add: view_num_def)
  next
    case 5 with fs show ?thesis by (simp add: view_num_def)
  next
    case 6 with fs show ?thesis by (simp add: view_num_def)
  next
    case 7 with fs show ?thesis by (simp add: view_num_def)
  next
    case 8 with fs show ?thesis by (simp add: view_num_def)
  next
    case 9 with fs show ?thesis by (simp add: view_num_def)
  next
    case 10 with fs show ?thesis by (simp add: view_num_def)
  next
    case 11 with fs show ?thesis by (simp add: view_num_def)
  qed
qed

lemma format_option_total:
  assumes "\<forall>f\<in>set numeric_fields. num_field pf data f \<noteq> None"
  shows "\<exists>v. format_option pf symbol parts data = Some v"
proof -
  from assms have "(\<exists>a. num_field pf data ''last_price'' = Some a)
       \<and> (\<exists>a. num_field pf data ''mark_price'' = Some a)
       \<and> (\<exists>a. num_field pf data ''volume_24h'' = Some a)
       \<and> (\<exists>a. num_field pf data ''open_interest'' = Some a)
       \<and> (\<exists>a. num_field pf data ''delta'' = Some a)
       \<and> (\<exists>a. num_field pf data ''gamma'' = Some a)
       \<and> (\<exists>a. num_field pf data ''theta'' = Some a)
       \<and> (\<exists>a. num_field pf data ''vega'' = Some a)
       \<and> (\<exists>a. num_field pf data ''mark_iv'' = Some a)
       \<and> (\<exists>a. num_field pf data ''underlying_price'' = Some a)
       \<and> (\<exists>a. num_field pf data ''timestamp'' = Some a)"
    by (simp add: numeric_fields_def)
  then show ?thesis
    unfolding format_option_def by clarsimp
qed

lemma format_option_None:
  "format_option pf symbol parts data = None \<longleftrightarrow>
     (\<exists>f\<in>set numeric_fields. num_field pf data f = None)"
proof
  assume n: "format_option pf symbol parts data = None"
  show "\<exists>f\<in>set numeric_fields. num_field pf data f = None"
  proof (rule ccontr)
    assume "\<not> (\<exists>f\<in>set numeric_fields. num_field pf data f = None)"
    then have "\<forall>f\<in>set numeric_fields. num_field pf data f \<noteq> None"
      by simp
    from format_option_total [OF this, of symbol parts] n show False
      by simp
  qed
next
  assume "\<exists>f\<in>set numeric_fields. num_field pf data f = None"
  then obtain f where f: "f \<in> set numeric_fields" "num_field pf data f = None"
    by blast
  show "format_option pf symbol parts data = None"
  proof (cases "format_option pf symbol parts data")
    case None
    then show ?thesis .
  next
    case (Some v)
    from format_option_num [OF Some f(1)] f(2) show ?thesis by simp
  qed
qed

lemma scan_key_Some:
  assumes "scan_key pf r e t k = Some v"
  shows "\<exists>d. hgetall r k = Some d \<and> d \<noteq> [] \<and>
          format_option pf (py_replace ''option:'' '''' k)
            (py_split CHR ''-'' (py_replace ''option:'' '''' k)) d = Some v"
  using assms by (auto simp: scan_key_def Let_def split: option.splits if_splits)

lemma scan_key_unfiltered:
  assumes "hgetall r k = Some d" and "d \<noteq> []"
  shows "scan_key pf r None None k =
          format_option pf (py_replace ''option:'' '''' k)
            (py_split CHR ''-'' (py_replace ''option:'' '''' k)) d"
  using assms by (simp add: scan_key_def truthy_def Let_def)

lemma scan_key_format_None:
  assumes "hgetall r k = Some d"
    and "format_option pf (py_replace ''option:'' '''' k)
            (py_split CHR ''-'' (py_replace ''option:'' '''' k)) d = None"
  shows "scan_key pf r e t k = None"
  using assms by (simp add: scan_key_def Let_def)

lemma set_get_options_data:
  "set (get_options_data pf r asset e t) =
     {v. \<exists>k\<in>set (scanned_keys r asset). scan_key pf r e t k = Some v}"
  by (simp add: get_options_data_map_filter set_sort_reverse set_map_filter)

text \<open>The registry.\<close>

lemma get_assets_stored: "stored s = Some a \<Longrightarrow> get_assets e s = ((a, False), s)"
  by (simp add: get_assets_def)

lemma add_asset_known:
  assumes "stored s = Some a" and "map_of a (upper symbol) \<noteq> None"
  shows "add_asset upper e s symbol name = (Inl (AlreadyExists symbol), s)"
  using assms by (simp add: add_asset_def get_assets_stored)

lemma test_asset_fails:
  assumes "probe e (upper symbol) = Probe_Timeout \<or> probe e (upper symbol) = Probe_Network_Error
      \<or> probe e (upper symbol) = Probe_Invalid_Body
      \<or> (\<exists>rc items. probe e (upper symbol) = Probe_Json rc items \<and>
            (rc \<noteq> Some 0 \<or> items = None \<or> items = Some 0))"
  shows "\<not> test_asset upper e symbol"
  using assms by (auto simp: test_asset_def)

lemma get_assets_again:
  "fst (fst (get_assets e' (snd (get_assets e s)))) = fst (fst (get_assets e s))"
  by (simp add: get_assets_def save_assets_def split: option.splits)








section \<open>The aggregation engine\<close>

text \<open>
  Claim C1, as the code has it. Let the expiry filter \<open>E\<close> be neither empty nor
  \<open>all\<close>, and let every scanned key contain the delimiter \<open>-\<close> (as a key matching
  \<open>option:{asset}-*\<close> does). Then the records the query returns are exactly the records
  of the query without expiry filter whose parsed expiry component equals \<open>E\<close>, each as
  often, so every returned record has that expiry. Under the type filter \<open>call\<close> the
  records returned are exactly the records of the query without type filter whose
  identifier ends with \<open>-C\<close> or \<open>-C-USDT\<close>, under \<open>put\<close> exactly those whose identifier
  ends with \<open>-P\<close> or \<open>-P-USDT\<close>. The filter value \<open>all\<close> and the empty string give the
  result of the absent filter, for the expiry and for the type.
\<close>

theorem filters_select:
  assumes "E \<noteq> []" and "E \<noteq> ''all''"
    and "\<forall>k\<in>set (take 500 (keys r (''option:'' @ asset @ ''-*''))). CHR ''-'' \<in> set k"
  shows "mset (get_options_data pf r asset (Some E) t) =
           {#v \<in># mset (get_options_data pf r asset None t). view_expiry v = E#}
       \<and> (\<forall>v\<in>set (get_options_data pf r asset (Some E) t). view_expiry v = E)
       \<and> mset (get_options_data pf r asset e (Some ''call'')) =
           {#v \<in># mset (get_options_data pf r asset e None).
              endswith (view_symbol v) ''-C'' \<or> endswith (view_symbol v) ''-C-USDT''#}
       \<and> mset (get_options_data pf r asset e (Some ''put'')) =
           {#v \<in># mset (get_options_data pf r asset e None).
              endswith (view_symbol v) ''-P'' \<or> endswith (view_symbol v) ''-P-USDT''#}
       \<and> get_options_data pf r asset (Some ''all'') t = get_options_data pf r asset None t
       \<and> get_options_data pf r asset e (Some ''all'') = get_options_data pf r asset e None
       \<and> get_options_data pf r asset (Some '''') t = get_options_data pf r asset None t
       \<and> get_options_data pf r asset e (Some '''') = get_options_data pf r asset e None"
proof -
  have ex: "mset (get_options_data pf r asset (Some E) t) =
           {#v \<in># mset (get_options_data pf r asset None t). view_expiry v = E#}"
    using assms by (intro get_options_data_keep scan_key_expiry) (auto simp: scanned_keys_def)
  have call: "mset (get_options_data pf r asset e (Some ''call'')) =
           {#v \<in># mset (get_options_data pf r asset e None).
              endswith (view_symbol v) ''-C'' \<or> endswith (view_symbol v) ''-C-USDT''#}"
    by (intro get_options_data_keep scan_key_call)
  have put: "mset (get_options_data pf r asset e (Some ''put'')) =
           {#v \<in># mset (get_options_data pf r asset e None).
              endswith (view_symbol v) ''-P'' \<or> endswith (view_symbol v) ''-P-USDT''#}"
    by (intro get_options_data_keep scan_key_put)
  have all1: "get_options_data pf r asset (Some ''all'') t = get_options_data pf r asset None t"
    by (simp add: get_options_data_map_filter scan_key_all_expiry)
  have all2: "get_options_data pf r asset e (Some ''all'') = get_options_data pf r asset e None"
    by (simp add: get_options_data_map_filter scan_key_all_type)
  have emp1: "get_options_data pf r asset (Some '''') t = get_options_data pf r asset None t"
    by (simp add: get_options_data_map_filter scan_key_empty_expiry)
  have emp2: "get_options_data pf r asset e (Some '''') = get_options_data pf r asset e None"
    by (simp add: get_options_data_map_filter scan_key_empty_type)
  have "set_mset (mset (get_options_data pf r asset (Some E) t)) \<subseteq> {v. view_expiry v = E}"
    unfolding ex by auto
  then have mem: "\<forall>v\<in>set (get_options_data pf r asset (Some E) t). view_expiry v = E"
    by auto
  show ?thesis
    by (rule conjI [OF ex conjI [OF mem conjI [OF call conjI [OF put
          conjI [OF all1 conjI [OF all2 conjI [OF emp1 emp2]]]]]]])
qed

text \<open>
  On the store of the worked example, with the expiry filter \<open>30JUN24\<close>.
\<close>

theorem filters_select_witness:
  "mset (get_options_data decimal_float sample_store ''BTC'' (Some ''30JUN24'') (Some ''call'')) =
     {#v \<in># mset (get_options_data decimal_float sample_store ''BTC'' None (Some ''call'')).
        view_expiry v = ''30JUN24''#}
   \<and> mset (get_options_data decimal_float sample_store ''BTC'' (Some ''30JUN24'') (Some ''put'')) =
     {#v \<in># mset (get_options_data decimal_float sample_store ''BTC'' (Some ''30JUN24'') None).
        endswith (view_symbol v) ''-P'' \<or> endswith (view_symbol v) ''-P-USDT''#}
   \<and> map view_symbol (get_options_data decimal_float sample_store ''BTC'' (Some ''30JUN24'') (Some ''call''))
       = [''BTC-30JUN24-60000-C'', ''BTC-30JUN24-70000-C-USDT'', ''BTC-30JUN24-50000-C'']
   \<and> map view_symbol (get_options_data decimal_float sample_store ''BTC'' (Some ''30JUN24'') (Some ''put''))
       = [''BTC-30JUN24-50000-P'']
   \<and> map view_symbol (get_options_data decimal_float sample_store ''BTC'' (Some '''') (Some ''put''))
       = map view_symbol (get_options_data decimal_float sample_store ''BTC'' None (Some ''put''))"
proof -
  have d: "\<forall>k\<in>set (take 500 (keys sample_store (''option:'' @ ''BTC'' @ ''-*''))). CHR ''-'' \<in> set k"
    by (simp add: sample_store_def btc_store_def)
  have n: "''30JUN24'' \<noteq> []" "''30JUN24'' \<noteq> ''all''"
    by simp_all
  note t = filters_select [OF n d, of decimal_float "Some ''call''" "Some ''30JUN24''"]
  note u = filters_select [OF n d, of decimal_float "Some ''put''" "Some ''30JUN24''"]
  have a: "map view_symbol (get_options_data decimal_float sample_store ''BTC'' (Some ''30JUN24'') (Some ''call''))
       = [''BTC-30JUN24-60000-C'', ''BTC-30JUN24-70000-C-USDT'', ''BTC-30JUN24-50000-C'']"
    by (simp add: eval_defs)
  have b: "map view_symbol (get_options_data decimal_float sample_store ''BTC'' (Some ''30JUN24'') (Some ''put''))
       = [''BTC-30JUN24-50000-P'']"
    by (simp add: eval_defs)
  have c: "map view_symbol (get_options_data decimal_float sample_store ''BTC'' (Some '''') (Some ''put''))
       = map view_symbol (get_options_data decimal_float sample_store ''BTC'' None (Some ''put''))"
    using u by simp
  show ?thesis
    by (rule conjI [OF conjunct1 [OF t]
          conjI [OF conjunct1 [OF conjunct2 [OF conjunct2 [OF conjunct2 [OF t]]]] conjI [OF a conjI [OF b c]]]])
qed

text \<open>
  An identifier without a marker is Put for the classification of the specification and
  in the view, yet the type filter \<open>put\<close> drops its record; and the empty expiry filter,
  which is neither absent nor \<open>all\<close>, lets a record of expiry \<open>30JUN24\<close> through.
\<close>

theorem put_filter_counterexample:
  "spec_kind ''BTC-30JUN24-50000'' = ''Put''
   \<and> map view_symbol (get_options_data decimal_float
        (btc_store [(''option:BTC-30JUN24-50000'', [(''volume_24h'', ''5'')])]) ''BTC'' None None)
       = [''BTC-30JUN24-50000'']
   \<and> map view_type (get_options_data decimal_float
        (btc_store [(''option:BTC-30JUN24-50000'', [(''volume_24h'', ''5'')])]) ''BTC'' None None)
       = [''Put'']
   \<and> get_options_data decimal_float
        (btc_store [(''option:BTC-30JUN24-50000'', [(''volume_24h'', ''5'')])]) ''BTC'' None (Some ''put'')
       = []
   \<and> map view_expiry (get_options_data decimal_float
        (btc_store [(''option:BTC-30JUN24-50000'', [(''volume_24h'', ''5'')])]) ''BTC'' (Some '''') None)
       = [''30JUN24'']"
  by (simp add: eval_defs)

text \<open>
  Claim C2. The view reports Call for every identifier in which \<open>-C\<close> occurs anywhere,
  whereas the type filter two lines above tests the end of the identifier. For the
  identifier \<open>BTC-C1-100-P\<close>, which ends with the put marker, the query with the type
  filter \<open>put\<close> returns the record, and its view says Call.
\<close>

theorem view_type_embedded_marker:
  "map view_type (get_options_data decimal_float
       (btc_store [(''option:BTC-C1-100-P'', [(''volume_24h'', ''3'')])]) ''BTC'' None (Some ''put''))
     = [''Call'']
   \<and> spec_kind ''BTC-C1-100-P'' = ''Put''
   \<and> endswith ''BTC-C1-100-P'' ''-P''"
  by (simp add: eval_defs)

text \<open>
  Claim C3, as the code has it. When no record the query returns has the volume nan, the
  sequence returned is sorted by the 24h volume in descending order, and the records of
  one volume stand in the order of the scan (the sort is stable); the scan order is the
  order of the keys within the cap. For three matching records with volumes 10, 50 and 30
  in scan order, among records the filters drop, the volumes come out as 50, 30, 10.
\<close>

theorem sorted_by_volume:
  assumes "\<forall>v\<in>set (get_options_data pf r asset e t). volume_24h v \<noteq> NaN"
  shows "sorted_wrt py_ge (map volume_24h (get_options_data pf r asset e t))
   \<and> (\<forall>x. [v \<leftarrow> get_options_data pf r asset e t. volume_24h v = x] =
           [v \<leftarrow> collect_options pf r asset e t. volume_24h v = x])
   \<and> collect_options pf r asset e t =
       List.map_filter (scan_key pf r e t) (take 500 (keys r (''option:'' @ asset @ ''-*'')))
   \<and> map volume_24h (get_options_data decimal_float sample_store
        ''BTC'' (Some ''30JUN24'') (Some ''call'')) = [Num 50, Num 30, Num 10]"
proof -
  from assms have n: "\<forall>v\<in>set (collect_options pf r asset e t). volume_24h v \<noteq> NaN"
    by (simp add: get_options_data_def set_sort_reverse)
  have a: "sorted_wrt py_ge (map volume_24h (get_options_data pf r asset e t))"
    unfolding get_options_data_def using n by (rule sorted_sort_reverse)
  have b: "\<forall>x. [v \<leftarrow> get_options_data pf r asset e t. volume_24h v = x] =
           [v \<leftarrow> collect_options pf r asset e t. volume_24h v = x]"
    unfolding get_options_data_def by (simp add: sort_reverse_stable)
  have c: "collect_options pf r asset e t =
       List.map_filter (scan_key pf r e t) (take 500 (keys r (''option:'' @ asset @ ''-*'')))"
    by (simp add: collect_options_map_filter scanned_keys_def)
  have d: "map volume_24h (get_options_data decimal_float sample_store
        ''BTC'' (Some ''30JUN24'') (Some ''call'')) = [Num 50, Num 30, Num 10]"
    by (simp add: eval_defs)
  show ?thesis
    by (rule conjI [OF a conjI [OF b conjI [OF c d]]])
qed

text \<open>
  On the store of the worked example, whose volumes are all numbers, without filters: two
  records of volume 50 would keep their scan order; here the five volumes are distinct.
\<close>

theorem sorted_by_volume_witness:
  "map volume_24h (get_options_data decimal_float sample_store ''BTC'' None None)
     = [Num 99, Num 70, Num 50, Num 30, Num 10]
   \<and> sorted_wrt py_ge (map volume_24h (get_options_data decimal_float sample_store ''BTC'' None None))"
proof -
  have v: "map volume_24h (get_options_data decimal_float sample_store ''BTC'' None None)
     = [Num 99, Num 70, Num 50, Num 30, Num 10]"
    by (simp add: eval_defs)
  have "list_all (\<lambda>x. x \<noteq> NaN) (map volume_24h (get_options_data decimal_float sample_store ''BTC'' None None))"
    unfolding v by simp
  then have "\<forall>v\<in>set (get_options_data decimal_float sample_store ''BTC'' None None). volume_24h v \<noteq> NaN"
    by (simp add: list_all_iff)
  from sorted_by_volume [OF this] v show ?thesis
    by blast
qed

text \<open>
  Three records with the volumes 10, nan and 50, in scan order. \<open>float\<close> accepts the string
  \<open>nan\<close>, so the record is kept. The reversed list is 50, nan, 10; no element of it is
  less than its predecessor, so the sort leaves it, and the result is 10, nan, 50, which is
  not in descending order. No arrangement of the three volumes is.
\<close>

theorem nan_volume_counterexample:
  "map volume_24h (get_options_data decimal_float
       (btc_store
         [(''option:BTC-30JUN24-50000-C'', [(''volume_24h'', ''10'')]),
          (''option:BTC-30JUN24-60000-C'', [(''volume_24h'', ''nan'')]),
          (''option:BTC-30JUN24-70000-C'', [(''volume_24h'', ''50'')])])
       ''BTC'' None None) = [Num 10, NaN, Num 50]
   \<and> \<not> sorted_wrt py_ge [Num 10, NaN, Num 50]
   \<and> \<not> sorted_wrt py_ge [Num 10, Num 50, NaN]
   \<and> \<not> sorted_wrt py_ge [NaN, Num 10, Num 50]
   \<and> \<not> sorted_wrt py_ge [NaN, Num 50, Num 10]
   \<and> \<not> sorted_wrt py_ge [Num 50, NaN, Num 10]
   \<and> \<not> sorted_wrt py_ge [Num 50, Num 10, NaN]"
  by (auto simp: eval_defs py_ge_def)

text \<open>
  Claim C4. The query reads the hashes of the first 500 keys of the scan only: its result
  has at most 500 entries, it is the same on two stores that agree on those keys and on
  their hashes, and it is the empty sequence when no key matches.
\<close>

theorem scan_cap:
  "length (get_options_data pf r asset e t) \<le> 500
   \<and> (take 500 (keys r' (''option:'' @ asset @ ''-*'')) = take 500 (keys r (''option:'' @ asset @ ''-*''))
        \<and> (\<forall>k\<in>set (take 500 (keys r (''option:'' @ asset @ ''-*''))). hgetall r' k = hgetall r k)
      \<longrightarrow> get_options_data pf r' asset e t = get_options_data pf r asset e t)
   \<and> (keys r (''option:'' @ asset @ ''-*'') = [] \<longrightarrow> get_options_data pf r asset e t = [])"
proof -
  have "length (List.map_filter (scan_key pf r e t) (scanned_keys r asset)) \<le> length (scanned_keys r asset)"
    by (rule length_map_filter_le)
  also have "\<dots> \<le> 500"
    by (simp add: scanned_keys_def)
  finally have a: "length (get_options_data pf r asset e t) \<le> 500"
    by (simp add: get_options_data_map_filter length_sort_reverse)
  have b: "get_options_data pf r' asset e t = get_options_data pf r asset e t"
    if "take 500 (keys r' (''option:'' @ asset @ ''-*'')) = take 500 (keys r (''option:'' @ asset @ ''-*''))"
      and "\<forall>k\<in>set (take 500 (keys r (''option:'' @ asset @ ''-*''))). hgetall r' k = hgetall r k"
  proof -
    have s: "scanned_keys r' asset = scanned_keys r asset"
      using that(1) by (simp add: scanned_keys_def)
    have "List.map_filter (scan_key pf r' e t) (scanned_keys r asset) =
          List.map_filter (scan_key pf r e t) (scanned_keys r asset)"
      using that(2) by (intro map_filter_cong_set) (simp add: scan_key_def scanned_keys_def)
    then show ?thesis
      by (simp add: get_options_data_map_filter s)
  qed
  have c: "get_options_data pf r asset e t = []" if "keys r (''option:'' @ asset @ ''-*'') = []"
    using that
    by (simp add: get_options_data_def collect_options_def scanned_keys_def sort_reverse_def
        sort_lt_def)
  from a b c show ?thesis by blast
qed

text \<open>
  On a store of 600 keys: the result stays within the cap and does not change when the
  hash of the 551st key does; an asset without keys gives the empty sequence.
\<close>

theorem scan_cap_witness:
  "length (keys big_store ''option:BTC-*'') = 600
   \<and> length (get_options_data decimal_float big_store ''BTC'' None None) \<le> 500
   \<and> get_options_data decimal_float
        (big_store \<lparr>hgetall := (hgetall big_store)(''option:BTC-'' @ replicate 550 CHR ''x'' := Some [])\<rparr>)
        ''BTC'' None None
      = get_options_data decimal_float big_store ''BTC'' None None
   \<and> get_options_data decimal_float big_store ''ETH'' None None = []"
proof -
  let ?r' = "big_store \<lparr>hgetall := (hgetall big_store)(''option:BTC-'' @ replicate 550 CHR ''x'' := Some [])\<rparr>"
  have k: "keys ?r' (''option:'' @ ''BTC'' @ ''-*'') = keys big_store (''option:'' @ ''BTC'' @ ''-*'')"
    by simp
  have h: "\<forall>k\<in>set (take 500 (keys big_store (''option:'' @ ''BTC'' @ ''-*''))). hgetall ?r' k = hgetall big_store k"
    by (auto simp: big_store_def take_map)
  have e: "keys big_store (''option:'' @ ''ETH'' @ ''-*'') = []"
    by (simp add: big_store_def)
  have n: "length (keys big_store ''option:BTC-*'') = 600"
    by (simp add: big_store_def)
  from scan_cap [of decimal_float big_store "''BTC''" None None ?r']
       scan_cap [of decimal_float big_store "''ETH''" None None big_store] k h e n
  show ?thesis by simp
qed

text \<open>
  Claim C5, as the code has it. Take a scanned key whose hash is not empty. When each
  numeric field is missing, empty or a string the conversion accepts, the unfiltered query
  returns a view of the record in which every missing or empty field is zero and every
  other field is its converted value. When some numeric field is a non-empty string the
  conversion rejects, the loop skips the record, whatever the filters; no error reaches
  the caller, the query returns its list. Every view the query returns comes from a
  scanned key all of whose numeric fields read as numbers.
\<close>

theorem numeric_defaults:
  assumes "k \<in> set (scanned_keys r asset)" and "hgetall r k = Some data" and "data \<noteq> []"
  shows "((\<forall>f\<in>set numeric_fields. map_of data f = None \<or> map_of data f = Some [] \<or>
              (\<exists>s x. map_of data f = Some s \<and> pf s = Some x)) \<longrightarrow>
          (\<exists>v\<in>set (get_options_data pf r asset None None).
              view_symbol v = py_replace ''option:'' '''' k \<and>
              (\<forall>f\<in>set numeric_fields.
                 (map_of data f = None \<or> map_of data f = Some [] \<longrightarrow> view_num f v = Num 0) \<and>
                 (\<forall>s x. map_of data f = Some s \<and> s \<noteq> [] \<and> pf s = Some x \<longrightarrow> view_num f v = x))))
       \<and> ((\<exists>f\<in>set numeric_fields. \<exists>s. map_of data f = Some s \<and> s \<noteq> [] \<and> pf s = None) \<longrightarrow>
            scan_key pf r e t k = None)
       \<and> (\<forall>v\<in>set (get_options_data pf r asset e t).
            \<exists>k'\<in>set (scanned_keys r asset). \<exists>d.
              hgetall r k' = Some d \<and> d \<noteq> [] \<and> view_symbol v = py_replace ''option:'' '''' k' \<and>
              (\<forall>f\<in>set numeric_fields. num_field pf d f = Some (view_num f v)))"
proof (intro conjI impI)
  let ?sym = "py_replace ''option:'' '''' k"
  assume ok: "\<forall>f\<in>set numeric_fields. map_of data f = None \<or> map_of data f = Some [] \<or>
              (\<exists>s x. map_of data f = Some s \<and> pf s = Some x)"
  have "\<forall>f\<in>set numeric_fields. num_field pf data f \<noteq> None"
    using ok by (fastforce simp: num_field_def)
  then obtain v where v: "format_option pf ?sym (py_split CHR ''-'' ?sym) data = Some v"
    using format_option_None [of pf ?sym "py_split CHR ''-'' ?sym" data] by auto
  then have "scan_key pf r None None k = Some v"
    using assms(2,3) by (simp add: scan_key_unfiltered)
  then have mem: "v \<in> set (get_options_data pf r asset None None)"
    using assms(1) by (auto simp: set_get_options_data)
  have sym: "view_symbol v = ?sym"
    using v by (rule format_option_Some(1))
  have num: "\<forall>f\<in>set numeric_fields.
      (map_of data f = None \<or> map_of data f = Some [] \<longrightarrow> view_num f v = Num 0) \<and>
      (\<forall>s x. map_of data f = Some s \<and> s \<noteq> [] \<and> pf s = Some x \<longrightarrow> view_num f v = x)"
  proof
    fix f assume f: "f \<in> set numeric_fields"
    have n: "num_field pf data f = Some (view_num f v)"
      using v f by (rule format_option_num)
    show "(map_of data f = None \<or> map_of data f = Some [] \<longrightarrow> view_num f v = Num 0) \<and>
      (\<forall>s x. map_of data f = Some s \<and> s \<noteq> [] \<and> pf s = Some x \<longrightarrow> view_num f v = x)"
      using n by (auto simp: num_field_def)
  qed
  from mem sym num
  show "\<exists>v\<in>set (get_options_data pf r asset None None).
              view_symbol v = py_replace ''option:'' '''' k \<and>
              (\<forall>f\<in>set numeric_fields.
                 (map_of data f = None \<or> map_of data f = Some [] \<longrightarrow> view_num f v = Num 0) \<and>
                 (\<forall>s x. map_of data f = Some s \<and> s \<noteq> [] \<and> pf s = Some x \<longrightarrow> view_num f v = x))"
    by blast
next
  assume "\<exists>f\<in>set numeric_fields. \<exists>s. map_of data f = Some s \<and> s \<noteq> [] \<and> pf s = None"
  then obtain f s where f: "f \<in> set numeric_fields"
    and s: "map_of data f = Some s" "s \<noteq> []" "pf s = None"
    by blast
  from s have "num_field pf data f = None"
    by (simp add: num_field_def)
  with f have "\<exists>f\<in>set numeric_fields. num_field pf data f = None"
    by (rule rev_bexI)
  then have "format_option pf (py_replace ''option:'' '''' k)
            (py_split CHR ''-'' (py_replace ''option:'' '''' k)) data = None"
    by (simp add: format_option_None)
  with assms(2) show "scan_key pf r e t k = None"
    by (rule scan_key_format_None)
next
  show "\<forall>v\<in>set (get_options_data pf r asset e t).
            \<exists>k'\<in>set (scanned_keys r asset). \<exists>d.
              hgetall r k' = Some d \<and> d \<noteq> [] \<and> view_symbol v = py_replace ''option:'' '''' k' \<and>
              (\<forall>f\<in>set numeric_fields. num_field pf d f = Some (view_num f v))"
  proof
    fix v assume "v \<in> set (get_options_data pf r asset e t)"
    then obtain k' where k': "k' \<in> set (scanned_keys r asset)" "scan_key pf r e t k' = Some v"
      by (auto simp: set_get_options_data)
    from scan_key_Some [OF k'(2)] obtain d where d: "hgetall r k' = Some d" "d \<noteq> []"
      "format_option pf (py_replace ''option:'' '''' k')
            (py_split CHR ''-'' (py_replace ''option:'' '''' k')) d = Some v"
      by blast
    have "view_symbol v = py_replace ''option:'' '''' k'"
      using d(3) by (rule format_option_Some(1))
    moreover have "\<forall>f\<in>set numeric_fields. num_field pf d f = Some (view_num f v)"
      using d(3) by (auto intro: format_option_num)
    ultimately show "\<exists>k'\<in>set (scanned_keys r asset). \<exists>d.
              hgetall r k' = Some d \<and> d \<noteq> [] \<and> view_symbol v = py_replace ''option:'' '''' k' \<and>
              (\<forall>f\<in>set numeric_fields. num_field pf d f = Some (view_num f v))"
      using k'(1) d(1,2) by blast
  qed
qed

text \<open>
  A record with an empty volume and no implied volatility is returned with zeros there; a
  record whose volume is \<open>abc\<close> is skipped.
\<close>

theorem numeric_defaults_witness:
  "(\<exists>v\<in>set (get_options_data decimal_float
        (btc_store [(''option:BTC-30JUN24-50000-C'', [(''last_price'', ''7''), (''volume_24h'', '''')])])
        ''BTC'' None None).
      view_symbol v = ''BTC-30JUN24-50000-C'' \<and> view_num ''last_price'' v = Num 7
      \<and> view_num ''volume_24h'' v = Num 0 \<and> view_num ''mark_iv'' v = Num 0)
   \<and> scan_key decimal_float
        (btc_store [(''option:BTC-30JUN24-50000-C'', [(''last_price'', ''7''), (''volume_24h'', ''abc'')])])
        (Some ''30JUN24'') (Some ''call'') ''option:BTC-30JUN24-50000-C'' = None"
proof -
  let ?k = "''option:BTC-30JUN24-50000-C''"
  let ?d = "[(''last_price'', ''7''), (''volume_24h'', '''')]"
  let ?d' = "[(''last_price'', ''7''), (''volume_24h'', ''abc'')]"
  let ?st = "btc_store [(?k, ?d)]"
  let ?st' = "btc_store [(?k, ?d')]"
  have k: "?k \<in> set (scanned_keys ?st ''BTC'')" "?k \<in> set (scanned_keys ?st' ''BTC'')"
    by (simp_all add: scanned_keys_def btc_store_def)
  have h: "hgetall ?st ?k = Some ?d" "hgetall ?st' ?k = Some ?d'"
    by (simp_all add: btc_store_def)
  have ok: "\<forall>f\<in>set numeric_fields. map_of ?d f = None \<or> map_of ?d f = Some [] \<or>
              (\<exists>s x. map_of ?d f = Some s \<and> decimal_float s = Some x)"
    by (simp add: numeric_fields_def decimal_float_def)
  have bad: "\<exists>f\<in>set numeric_fields. \<exists>s. map_of ?d' f = Some s \<and> s \<noteq> [] \<and> decimal_float s = None"
    by (simp add: numeric_fields_def decimal_float_def)
  have "\<exists>v\<in>set (get_options_data decimal_float ?st ''BTC'' None None).
          view_symbol v = py_replace ''option:'' '''' ?k \<and>
          (\<forall>f\<in>set numeric_fields.
             (map_of ?d f = None \<or> map_of ?d f = Some [] \<longrightarrow> view_num f v = Num 0) \<and>
             (\<forall>s x. map_of ?d f = Some s \<and> s \<noteq> [] \<and> decimal_float s = Some x \<longrightarrow> view_num f v = x))"
    using numeric_defaults [OF k(1) h(1), of decimal_float None None] ok by simp
  then obtain v where v: "v \<in> set (get_options_data decimal_float ?st ''BTC'' None None)"
    "view_symbol v = py_replace ''option:'' '''' ?k"
    and f: "\<forall>f\<in>set numeric_fields.
             (map_of ?d f = None \<or> map_of ?d f = Some [] \<longrightarrow> view_num f v = Num 0) \<and>
             (\<forall>s x. map_of ?d f = Some s \<and> s \<noteq> [] \<and> decimal_float s = Some x \<longrightarrow> view_num f v = x)"
    by blast
  have "view_symbol v = ''BTC-30JUN24-50000-C''"
    using v(2) by (simp add: py_replace.simps)
  moreover have "view_num ''last_price'' v = Num 7" "view_num ''volume_24h'' v = Num 0" "view_num ''mark_iv'' v = Num 0"
    using f by (simp_all add: numeric_fields_def decimal_float_def)
  ultimately have a: "\<exists>v\<in>set (get_options_data decimal_float ?st ''BTC'' None None).
      view_symbol v = ''BTC-30JUN24-50000-C'' \<and> view_num ''last_price'' v = Num 7
      \<and> view_num ''volume_24h'' v = Num 0 \<and> view_num ''mark_iv'' v = Num 0"
    using v(1) by blast
  have b: "scan_key decimal_float ?st' (Some ''30JUN24'') (Some ''call'') ?k = None"
    using numeric_defaults [OF k(2) h(2), of decimal_float "Some ''30JUN24''" "Some ''call''"] bad
    by simp
  from a b show ?thesis by (rule conjI)
qed

text \<open>
  The record whose volume is \<open>abc\<close> is not in the result: the query returns nothing,
  where the claim has the record with volume zero.
\<close>

theorem malformed_number_counterexample:
  "get_options_data decimal_float
     (btc_store [(''option:BTC-30JUN24-50000-C'', [(''last_price'', ''7''), (''volume_24h'', ''abc'')])])
     ''BTC'' None None = []"
  by (simp add: eval_defs)


section \<open>The asset registry: properties\<close>

text \<open>
  Claim C6. \<open>get_assets\<close> hands out the class attribute itself when it bootstraps, and
  \<open>add_asset\<close> writes the new entry into the dictionary it got. Take a process that has
  just started and a store with no registry document that refuses the write: after
  \<open>add_asset\<close> for XRP the document is still absent, and \<open>get_assets\<close> on that store
  returns and persists four assets, BTC, ETH, SOL and XRP, not the three seed assets.
\<close>

theorem bootstrap_after_refused_add:
  "fst (add_asset ascii_upper (world (Probe_Json (Some 0) (Some 3)) False) fresh ''XRP'' ''Ripple'')
     = Inr ()
   \<and> stored (snd (add_asset ascii_upper (world (Probe_Json (Some 0) (Some 3)) False) fresh
        ''XRP'' ''Ripple'')) = None
   \<and> map fst (fst (fst (get_assets (world Probe_Timeout True)
        (snd (add_asset ascii_upper (world (Probe_Json (Some 0) (Some 3)) False) fresh
           ''XRP'' ''Ripple'')))))
       = [''BTC'', ''ETH'', ''SOL'', ''XRP'']
   \<and> map_option (map fst) (stored (snd (get_assets (world Probe_Timeout True)
        (snd (add_asset ascii_upper (world (Probe_Json (Some 0) (Some 3)) False) fresh
           ''XRP'' ''Ripple'')))))
       = Some [''BTC'', ''ETH'', ''SOL'', ''XRP'']"
proof -
  let ?new = "\<lparr>asset_name = ''Ripple'', asset_enabled = True, asset_order = 4,
                added_date = Some ''2024-06-30T12:00:00''\<rparr>"
  let ?a = "DEFAULT_ASSETS @ [(''XRP'', ?new)]"
  have s: "add_asset ascii_upper (world (Probe_Json (Some 0) (Some 3)) False) fresh ''XRP'' ''Ripple'' =
      (Inr (), \<lparr>stored = None, default_assets = ?a, set_calls = 2\<rparr>)"
    by (simp add: add_asset_def get_assets_def fresh_def DEFAULT_ASSETS_def ascii_upper_def
        ascii_upper_char_def char_of_eq_iff test_asset_def world_def save_assets_def
        write_through_def Let_def)
  have g: "get_assets (world Probe_Timeout True) \<lparr>stored = None, default_assets = ?a, set_calls = 2\<rparr> =
      ((?a, True), \<lparr>stored = Some ?a, default_assets = ?a, set_calls = 3\<rparr>)"
    by (simp add: get_assets_def save_assets_def world_def)
  show ?thesis
    unfolding s using g by (simp add: DEFAULT_ASSETS_def)
qed

text \<open>
  In a process whose class attribute still holds the declared default set, on a store with
  no registry document that accepts the write, \<open>get_assets\<close> returns exactly BTC Bitcoin,
  ETH Ethereum and SOL Solana, each enabled, with orders 1, 2 and 3, and persists that set
  with one \<open>SET\<close>; a second call, in whatever outside world, returns the same mapping and
  leaves the state, the count of \<open>SET\<close> commands included, as it is. Whenever a document
  exists, \<open>get_assets\<close> returns that document and changes nothing.
\<close>

theorem get_assets_bootstrap:
  assumes "stored s = None" and "default_assets s = DEFAULT_ASSETS" and "set_ok e"
  shows "fst (fst (get_assets e s)) =
           [(''BTC'', \<lparr>asset_name = ''Bitcoin'', asset_enabled = True, asset_order = 1, added_date = None\<rparr>),
            (''ETH'', \<lparr>asset_name = ''Ethereum'', asset_enabled = True, asset_order = 2, added_date = None\<rparr>),
            (''SOL'', \<lparr>asset_name = ''Solana'', asset_enabled = True, asset_order = 3, added_date = None\<rparr>)]
       \<and> stored (snd (get_assets e s)) = Some (fst (fst (get_assets e s)))
       \<and> set_calls (snd (get_assets e s)) = set_calls s + 1
       \<and> get_assets e' (snd (get_assets e s)) =
           ((fst (fst (get_assets e s)), False), snd (get_assets e s))
       \<and> (\<forall>s' a. stored s' = Some a \<longrightarrow> get_assets e' s' = ((a, False), s'))"
  using assms by (simp add: get_assets_def save_assets_def DEFAULT_ASSETS_def)

theorem get_assets_bootstrap_witness:
  "fst (fst (get_assets (world Probe_Timeout True) fresh)) = DEFAULT_ASSETS
   \<and> snd (get_assets (world Probe_Timeout True) fresh) = bootstrapped
   \<and> get_assets (world Probe_Timeout False) bootstrapped = ((DEFAULT_ASSETS, False), bootstrapped)
   \<and> get_assets (world Probe_Timeout True)
        \<lparr>stored = Some (tl DEFAULT_ASSETS), default_assets = DEFAULT_ASSETS, set_calls = 5\<rparr> =
       ((tl DEFAULT_ASSETS, False),
        \<lparr>stored = Some (tl DEFAULT_ASSETS), default_assets = DEFAULT_ASSETS, set_calls = 5\<rparr>)"
proof -
  have h: "stored fresh = None" "default_assets fresh = DEFAULT_ASSETS" "set_ok (world Probe_Timeout True)"
    by (simp_all add: fresh_def world_def)
  note t = get_assets_bootstrap [OF h, of "world Probe_Timeout True"]
  have b: "snd (get_assets (world Probe_Timeout True) fresh) = bootstrapped"
    by (simp add: get_assets_def save_assets_def fresh_def world_def bootstrapped_def)
  have a: "fst (fst (get_assets (world Probe_Timeout True) fresh)) = DEFAULT_ASSETS"
    using t by (simp add: DEFAULT_ASSETS_def)
  have c: "get_assets (world Probe_Timeout False) bootstrapped = ((DEFAULT_ASSETS, False), bootstrapped)"
    using get_assets_bootstrap [OF h, of "world Probe_Timeout False"] a b by simp
  have d: "get_assets (world Probe_Timeout True)
        \<lparr>stored = Some (tl DEFAULT_ASSETS), default_assets = DEFAULT_ASSETS, set_calls = 5\<rparr> =
       ((tl DEFAULT_ASSETS, False),
        \<lparr>stored = Some (tl DEFAULT_ASSETS), default_assets = DEFAULT_ASSETS, set_calls = 5\<rparr>)"
    using t by simp
  show ?thesis
    by (rule conjI [OF a conjI [OF b conjI [OF c d]]])
qed

text \<open>
  Claim C7. When the uppercased symbol is a key of the persisted registry document,
  \<open>add_asset\<close> returns the error AlreadyExists and the state is the one before the call,
  the count of \<open>SET\<close> commands included: nothing is written.
  The outside world \<open>e\<close> is arbitrary: neither the reply of the probe nor the store's
  readiness to write changes the outcome.
\<close>

theorem add_existing:
  assumes "stored s = Some a" and "map_of a (upper symbol) \<noteq> None"
  shows "add_asset upper e s symbol name = (Inl (AlreadyExists symbol), s)"
  using assms by (rule add_asset_known)

theorem add_existing_witness:
  "add_asset ascii_upper (world (Probe_Json (Some 0) (Some 1)) True) bootstrapped ''btc'' ''Bitcoin'' =
     (Inl (AlreadyExists ''btc''), bootstrapped)
   \<and> add_asset ascii_upper (world Probe_Timeout False) bootstrapped ''BTC'' ''Bitcoin'' =
     (Inl (AlreadyExists ''BTC''), bootstrapped)"
proof -
  have s: "stored bootstrapped = Some DEFAULT_ASSETS"
    by (simp add: bootstrapped_def)
  have k: "map_of DEFAULT_ASSETS (ascii_upper ''btc'') \<noteq> None" "map_of DEFAULT_ASSETS (ascii_upper ''BTC'') \<noteq> None"
    by (simp_all add: DEFAULT_ASSETS_def ascii_upper_def ascii_upper_char_def char_of_eq_iff)
  from add_existing [where upper = ascii_upper and symbol = "''btc''", OF s k(1)]
       add_existing [where upper = ascii_upper and symbol = "''BTC''", OF s k(2)]
  show ?thesis by simp
qed

text \<open>
  Claim C8. When the uppercased symbol is not a key of the registry and the probe times
  out, fails on the network, returns no valid body, returns a code other than zero or
  lists no instrument, \<open>add_asset\<close> returns the error NoInstrumentsAvailable, the same
  for each of these replies. The state is the one \<open>get_assets\<close> leaves: the state before
  the call when the document exists, and in every case the registry read afterwards is
  the registry read before.
\<close>

theorem add_probe_fails:
  assumes "map_of (fst (fst (get_assets e s))) (upper symbol) = None"
    and "probe e (upper symbol) = Probe_Timeout \<or> probe e (upper symbol) = Probe_Network_Error
      \<or> probe e (upper symbol) = Probe_Invalid_Body
      \<or> (\<exists>rc items. probe e (upper symbol) = Probe_Json rc items \<and>
            (rc \<noteq> Some 0 \<or> items = None \<or> items = Some 0))"
  shows "add_asset upper e s symbol name = (Inl (NoInstrumentsAvailable symbol), snd (get_assets e s))
       \<and> (stored s \<noteq> None \<longrightarrow> snd (add_asset upper e s symbol name) = s)
       \<and> fst (fst (get_assets e' (snd (add_asset upper e s symbol name)))) = fst (fst (get_assets e s))"
proof -
  have t: "\<not> test_asset upper e symbol"
    using assms(2) by (rule test_asset_fails)
  have a: "add_asset upper e s symbol name = (Inl (NoInstrumentsAvailable symbol), snd (get_assets e s))"
    using assms(1) t by (simp add: add_asset_def split_beta)
  have b: "stored s \<noteq> None \<longrightarrow> snd (add_asset upper e s symbol name) = s"
    by (auto simp: a get_assets_stored)
  have c: "fst (fst (get_assets e' (snd (add_asset upper e s symbol name)))) = fst (fst (get_assets e s))"
    by (simp add: a get_assets_again)
  from a b c show ?thesis by blast
qed

theorem add_probe_fails_witness:
  "add_asset ascii_upper (world (Probe_Json (Some 0) (Some 0)) True) bootstrapped ''XRP'' ''Ripple'' =
     (Inl (NoInstrumentsAvailable ''XRP''), bootstrapped)
   \<and> add_asset ascii_upper (world Probe_Timeout True) bootstrapped ''XRP'' ''Ripple'' =
     (Inl (NoInstrumentsAvailable ''XRP''), bootstrapped)
   \<and> add_asset ascii_upper (world (Probe_Json (Some 10001) (Some 1)) True) bootstrapped ''XRP'' ''Ripple'' =
     (Inl (NoInstrumentsAvailable ''XRP''), bootstrapped)"
proof -
  have g: "get_assets e bootstrapped = ((DEFAULT_ASSETS, False), bootstrapped)" for e
    by (simp add: get_assets_def bootstrapped_def)
  have k: "map_of (fst (fst (get_assets e bootstrapped))) (ascii_upper ''XRP'') = None" for e
    by (simp add: g DEFAULT_ASSETS_def ascii_upper_def ascii_upper_char_def char_of_eq_iff)
  have "add_asset ascii_upper (world (Probe_Json (Some 0) (Some 0)) True) bootstrapped ''XRP'' ''Ripple'' =
     (Inl (NoInstrumentsAvailable ''XRP''), bootstrapped)"
    using add_probe_fails [where upper = ascii_upper and symbol = "''XRP''"
        and e = "world (Probe_Json (Some 0) (Some 0)) True" and name = "''Ripple''", OF k]
    by (simp add: world_def g)
  moreover have "add_asset ascii_upper (world Probe_Timeout True) bootstrapped ''XRP'' ''Ripple'' =
     (Inl (NoInstrumentsAvailable ''XRP''), bootstrapped)"
    using add_probe_fails [where upper = ascii_upper and symbol = "''XRP''"
        and e = "world Probe_Timeout True" and name = "''Ripple''", OF k]
    by (simp add: world_def g)
  moreover have "add_asset ascii_upper (world (Probe_Json (Some 10001) (Some 1)) True) bootstrapped ''XRP'' ''Ripple'' =
     (Inl (NoInstrumentsAvailable ''XRP''), bootstrapped)"
    using add_probe_fails [where upper = ascii_upper and symbol = "''XRP''"
        and e = "world (Probe_Json (Some 10001) (Some 1)) True" and name = "''Ripple''", OF k]
    by (simp add: world_def g)
  ultimately show ?thesis by blast
qed





text \<open>
  The bootstrap branch of \<open>get_assets\<close> hands out the class attribute itself. When the
  first call of a process on an empty store is \<open>add_asset\<close>, the new entry is written into
  the attribute as well, and \<open>remove_asset\<close> then takes the added symbol for a default:
  it returns false and the entry stays.
\<close>

theorem added_first_cannot_be_removed:
  "fst (add_asset ascii_upper (world (Probe_Json (Some 0) (Some 3)) True) fresh ''XRP'' ''Ripple'') = Inr ()
   \<and> map fst (default_assets
        (snd (add_asset ascii_upper (world (Probe_Json (Some 0) (Some 3)) True) fresh ''XRP'' ''Ripple'')))
       = [''BTC'', ''ETH'', ''SOL'', ''XRP'']
   \<and> remove_asset (world Probe_Timeout True)
        (snd (add_asset ascii_upper (world (Probe_Json (Some 0) (Some 3)) True) fresh ''XRP'' ''Ripple'')) ''XRP''
       = (False, snd (add_asset ascii_upper (world (Probe_Json (Some 0) (Some 3)) True) fresh ''XRP'' ''Ripple''))"
proof -
  let ?new = "\<lparr>asset_name = ''Ripple'', asset_enabled = True, asset_order = 4,
                added_date = Some ''2024-06-30T12:00:00''\<rparr>"
  let ?a = "DEFAULT_ASSETS @ [(''XRP'', ?new)]"
  have s: "add_asset ascii_upper (world (Probe_Json (Some 0) (Some 3)) True) fresh ''XRP'' ''Ripple'' =
      (Inr (), \<lparr>stored = Some ?a, default_assets = ?a, set_calls = 2\<rparr>)"
    by (simp add: add_asset_def get_assets_def fresh_def DEFAULT_ASSETS_def ascii_upper_def
        ascii_upper_char_def char_of_eq_iff test_asset_def world_def save_assets_def write_through_def
        Let_def)
  have r: "remove_asset (world Probe_Timeout True)
        \<lparr>stored = Some ?a, default_assets = ?a, set_calls = 2\<rparr> ''XRP'' =
      (False, \<lparr>stored = Some ?a, default_assets = ?a, set_calls = 2\<rparr>)"
    by (simp add: remove_asset_def get_assets_def DEFAULT_ASSETS_def)
  show ?thesis
    unfolding s using r by (simp add: DEFAULT_ASSETS_def)
qed

end
